theory Spec2Isabelle
  imports Main "HOL-Library.Word"
begin

unbundle bit_operations_syntax

section \<open>Module.h: modules, file units and import records\<close>

subsection \<open>Traps\<close>

text \<open>
  A failed \<^verbatim>\<open>assert\<close> and a reached \<^verbatim>\<open>llvm_unreachable\<close> stop the program. Every
  function of the header that contains one returns \<open>error + 'a\<close>, with \<open>Inl\<close> for the stop
  and the message of the source.
\<close>

datatype error = AssertionFailure string | Unreachable string

subsection \<open>Identifiers, access paths and import records\<close>

text \<open>
  \<^verbatim>\<open>Identifier\<close> and \<^verbatim>\<open>SourceLoc\<close> are declared outside this header. An identifier is
  an interned string, compared by its text; a source location is an offset. Pointers to
  modules, files and declarations are handles compared by identity.
  \<^verbatim>\<open>typedef ArrayRef<std::pair<Identifier, SourceLoc>> AccessPathTy;\<close>
  \<^verbatim>\<open>typedef std::pair<ModuleDecl::AccessPathTy, ModuleDecl*> ImportedModule;\<close>
\<close>

type_synonym Identifier = string
type_synonym SourceLoc = nat
type_synonym ModuleDecl_ptr = nat
type_synonym ValueDecl_ptr = nat
type_synonym ClassDecl_ptr = nat
type_synonym FileUnit_ptr = nat
type_synonym AccessPathTy = "(Identifier \<times> SourceLoc) list"
type_synonym ImportedModule = "AccessPathTy \<times> ModuleDecl_ptr"

text \<open>
  \<^verbatim>\<open>ModuleDecl::matchesAccessPath\<close> (Module.h:139). \<^verbatim>\<open>DeclName\<close>, its constructor from an
  identifier and \<^verbatim>\<open>DeclName::matchesRef\<close> are declared outside this header: they are the
  parameters \<open>DeclName\<close> and \<open>matchesRef\<close>. \<^verbatim>\<open>front()\<close> is only evaluated on a non-empty
  path, as \<^verbatim>\<open>||\<close> short-circuits.
\<close>

definition matchesAccessPath ::
  "(Identifier \<Rightarrow> 'declname) \<Rightarrow> ('declname \<Rightarrow> 'declname \<Rightarrow> bool) \<Rightarrow>
   AccessPathTy \<Rightarrow> 'declname \<Rightarrow> error + bool" where
  "matchesAccessPath DeclName matchesRef AccessPath Name =
     (if \<not> length AccessPath \<le> 1
      then Inl (AssertionFailure ''can only refer to top-level decls'')
      else Inr (case AccessPath of
                  [] \<Rightarrow> True
                | front # _ \<Rightarrow> matchesRef (DeclName (fst front)) Name))"

text \<open>
  Modelled from the spec: the body of \<^verbatim>\<open>ModuleDecl::isSameAccessPath\<close> is not in the
  header, which only declares it (Module.h:571) under the comment "Returns true if the two
  access paths contain the same chain of identifiers. Source locations are ignored here."
  The chains are compared element by element, on the identifier of each pair.
\<close>

fun isSameAccessPath :: "AccessPathTy \<Rightarrow> AccessPathTy \<Rightarrow> bool" where
  "isSameAccessPath [] [] = True"
| "isSameAccessPath (l # lhs) (r # rhs) = (fst l = fst r \<and> isSameAccessPath lhs rhs)"
| "isSameAccessPath _ _ = False"

text \<open>
  \<^verbatim>\<open>llvm::DenseMapInfo<swift::ModuleDecl::ImportedModule>::isEqual\<close> (Module.h:1533), the
  equality of the hashed sets and maps keyed by import records.
\<close>

definition isEqual :: "ImportedModule \<Rightarrow> ImportedModule \<Rightarrow> bool" where
  "isEqual lhs rhs = (snd lhs = snd rhs \<and> isSameAccessPath (fst lhs) (fst rhs))"

subsection \<open>Option sets\<close>

text \<open>
  Modelled from the spec: \<^verbatim>\<open>OptionSet\<close> (swift/Basic/OptionSet.h) is used by this header
  and not part of it. The spec calls the import flags a "bitset" and the filter kinds "bits
  selecting which edges" are included; the enumerators of the header are single bits
  (\<^verbatim>\<open>1 << 0\<close>, \<^verbatim>\<open>0x8\<close>, ...). An option set is its storage word; \<^verbatim>\<open>contains\<close> holds when
  no bit of the argument is missing from the storage, and \<^verbatim>\<open>|\<close> is the bitwise or.
\<close>

definition OptionSet_contains :: "'a::len word \<Rightarrow> 'a word \<Rightarrow> bool" where
  "OptionSet_contains Storage other = (other AND NOT Storage = 0)"

definition OptionSet_or :: "'a::len word \<Rightarrow> 'a word \<Rightarrow> 'a word" where
  "OptionSet_or lhs rhs = lhs OR rhs"

subsection \<open>The entry-point record of a module\<close>

text \<open>
  \<^verbatim>\<open>ModuleDecl::EntryPointInfoTy\<close> (Module.h:213). Its only member is
  \<^verbatim>\<open>llvm::PointerIntPair<FileUnit *, 2, OptionSet<Flags>> storage\<close>: a pointer (\<open>None\<close> is
  \<^verbatim>\<open>nullptr\<close>) and a two-bit integer holding the flags.
\<close>

datatype Flags = DiagnosedMultipleMainClasses | DiagnosedMainClassWithScript

fun Flags_raw :: "Flags \<Rightarrow> 2 word" where
  "Flags_raw DiagnosedMultipleMainClasses = push_bit 0 1"
| "Flags_raw DiagnosedMainClassWithScript = push_bit 1 1"

record EntryPointInfoTy =
  storage_Pointer :: "FileUnit_ptr option"
  storage_Int :: "2 word"

text \<open>\<^verbatim>\<open>EntryPointInfoTy() = default\<close>: the null pointer and no flag.\<close>

definition EntryPointInfoTy_default :: EntryPointInfoTy where
  "EntryPointInfoTy_default = \<lparr>storage_Pointer = None, storage_Int = 0\<rparr>"

definition getEntryPointFile :: "EntryPointInfoTy \<Rightarrow> FileUnit_ptr option" where
  "getEntryPointFile E = storage_Pointer E"

definition setEntryPointFile ::
  "FileUnit_ptr option \<Rightarrow> EntryPointInfoTy \<Rightarrow> error + EntryPointInfoTy" where
  "setEntryPointFile file E =
     (if \<not> (storage_Pointer E = None)
      then Inl (AssertionFailure ''!storage.getPointer()'')
      else Inr (E\<lparr>storage_Pointer := file\<rparr>))"

definition EntryPointInfoTy_hasEntryPoint :: "EntryPointInfoTy \<Rightarrow> bool" where
  "EntryPointInfoTy_hasEntryPoint E = (storage_Pointer E \<noteq> None)"

definition markDiagnosedMultipleMainClasses ::
  "EntryPointInfoTy \<Rightarrow> bool \<times> EntryPointInfoTy" where
  "markDiagnosedMultipleMainClasses E =
     (let res = OptionSet_contains (storage_Int E) (Flags_raw DiagnosedMultipleMainClasses);
          E' = E\<lparr>storage_Int :=
                    OptionSet_or (storage_Int E) (Flags_raw DiagnosedMultipleMainClasses)\<rparr>
      in (\<not> res, E'))"

definition markDiagnosedMainClassWithScript ::
  "EntryPointInfoTy \<Rightarrow> bool \<times> EntryPointInfoTy" where
  "markDiagnosedMainClassWithScript E =
     (let res = OptionSet_contains (storage_Int E) (Flags_raw DiagnosedMainClassWithScript);
          E' = E\<lparr>storage_Int :=
                    OptionSet_or (storage_Int E) (Flags_raw DiagnosedMainClassWithScript)\<rparr>
      in (\<not> res, E'))"

text \<open>
  The life of an entry-point record is a sequence of calls of its three mutating members.
  A call returns its result (\<open>None\<close> for the \<^verbatim>\<open>void\<close> setter) and the new record; a trap
  ends the run.
\<close>

datatype EntryPointCall =
    Call_setEntryPointFile "FileUnit_ptr option"
  | Call_markDiagnosedMultipleMainClasses
  | Call_markDiagnosedMainClassWithScript

fun EntryPointInfoTy_call ::
  "EntryPointCall \<Rightarrow> EntryPointInfoTy \<Rightarrow> error + (bool option \<times> EntryPointInfoTy)" where
  "EntryPointInfoTy_call (Call_setEntryPointFile file) E =
     (case setEntryPointFile file E of
        Inl e \<Rightarrow> Inl e
      | Inr E' \<Rightarrow> Inr (None, E'))"
| "EntryPointInfoTy_call Call_markDiagnosedMultipleMainClasses E =
     (case markDiagnosedMultipleMainClasses E of (res, E') \<Rightarrow> Inr (Some res, E'))"
| "EntryPointInfoTy_call Call_markDiagnosedMainClassWithScript E =
     (case markDiagnosedMainClassWithScript E of (res, E') \<Rightarrow> Inr (Some res, E'))"

fun EntryPointInfoTy_calls ::
  "EntryPointCall list \<Rightarrow> EntryPointInfoTy \<Rightarrow>
   error + (bool option list \<times> EntryPointInfoTy)" where
  "EntryPointInfoTy_calls [] E = Inr ([], E)"
| "EntryPointInfoTy_calls (c # cs) E =
     (case EntryPointInfoTy_call c E of
        Inl e \<Rightarrow> Inl e
      | Inr (res, E') \<Rightarrow>
          (case EntryPointInfoTy_calls cs E' of
             Inl e \<Rightarrow> Inl e
           | Inr (ress, E'') \<Rightarrow> Inr (res # ress, E'')))"

text \<open>The call that sets a given flag.\<close>

fun mark_call :: "Flags \<Rightarrow> EntryPointCall" where
  "mark_call DiagnosedMultipleMainClasses = Call_markDiagnosedMultipleMainClasses"
| "mark_call DiagnosedMainClassWithScript = Call_markDiagnosedMainClassWithScript"

text \<open>The results, in order, that the calls equal to \<open>c\<close> returned in a run.\<close>

definition results_of ::
  "EntryPointCall \<Rightarrow> EntryPointCall list \<Rightarrow> bool option list \<Rightarrow> bool option list" where
  "results_of c cs ress = map snd (filter (\<lambda>cr. fst cr = c) (zip cs ress))"

text \<open>"True the first time, false ever after", for \<open>n\<close> calls.\<close>

fun first_time_only :: "nat \<Rightarrow> bool option list" where
  "first_time_only 0 = []"
| "first_time_only (Suc n) = Some True # replicate n (Some False)"

subsection \<open>Import edges of a source file\<close>

text \<open>
  \<^verbatim>\<open>SourceFile::ImportFlags\<close> (Module.h:938), \<^verbatim>\<open>ImportOptions = OptionSet<ImportFlags>\<close>
  and \<^verbatim>\<open>ModuleDecl::ImportFilterKind\<close> (Module.h:461),
  \<^verbatim>\<open>ImportFilter = OptionSet<ImportFilterKind>\<close>.
\<close>

datatype ImportFlags = Exported | Testable | PrivateImport | ImplementationOnly

fun ImportFlags_raw :: "ImportFlags \<Rightarrow> 32 word" where
  "ImportFlags_raw Exported = 0x1"
| "ImportFlags_raw Testable = 0x2"
| "ImportFlags_raw PrivateImport = 0x4"
| "ImportFlags_raw ImportFlags.ImplementationOnly = 0x8"

type_synonym ImportOptions = "32 word"

datatype ImportFilterKind = Public | Private | ImplementationOnly

fun ImportFilterKind_raw :: "ImportFilterKind \<Rightarrow> 32 word" where
  "ImportFilterKind_raw Public = push_bit 0 1"
| "ImportFilterKind_raw Private = push_bit 1 1"
| "ImportFilterKind_raw ImportFilterKind.ImplementationOnly = push_bit 2 1"

type_synonym ImportFilter = "32 word"

text \<open>
  \<^verbatim>\<open>SourceFile::ImportedModuleDesc\<close> (Module.h:961). The constructor stores its three
  arguments and then asserts that the options do not hold both \<^verbatim>\<open>Exported\<close> and
  \<^verbatim>\<open>ImplementationOnly\<close>.
\<close>

record ImportedModuleDesc =
  module :: ImportedModule
  importOptions :: ImportOptions
  filename :: string

definition ImportedModuleDesc_ctor ::
  "ImportedModule \<Rightarrow> ImportOptions \<Rightarrow> string \<Rightarrow> error + ImportedModuleDesc" where
  "ImportedModuleDesc_ctor module' options filename' =
     (let this = \<lparr>module = module', importOptions = options, filename = filename'\<rparr>
      in if \<not> \<not> (OptionSet_contains (importOptions this) (ImportFlags_raw Exported) \<and>
                   OptionSet_contains (importOptions this)
                     (ImportFlags_raw ImportFlags.ImplementationOnly))
         then Inl (AssertionFailure
                ''!(importOptions.contains(ImportFlags::Exported) && importOptions.contains(ImportFlags::ImplementationOnly))'')
         else Inr this)"

subsection \<open>File units\<close>

datatype FileUnitKind = Source | Builtin | SerializedAST | ClangModule | DWARFModule

datatype SourceFileKind = Library | Main | REPL | SIL | Interface

text \<open>
  The members of \<^verbatim>\<open>SourceFile\<close> (Module.h:925) that the functions below read:
  \<^verbatim>\<open>Imports\<close>, \<^verbatim>\<open>MainClass\<close> (\<open>None\<close> is \<^verbatim>\<open>nullptr\<close>) and \<^verbatim>\<open>Kind\<close>.
\<close>

record SourceFile =
  Imports :: "ImportedModuleDesc list"
  MainClass :: "ClassDecl_ptr option"
  Kind :: SourceFileKind

text \<open>
  \<^verbatim>\<open>LoadedFile\<close> (Module.h:1389): the kind given to its constructor and
  \<^verbatim>\<open>llvm::DenseMap<const ValueDecl *, Identifier> FilenameForPrivateDecls\<close>.
\<close>

record LoadedFile =
  LoadedFile_Kind :: FileUnitKind
  FilenameForPrivateDecls :: "ValueDecl_ptr \<rightharpoonup> Identifier"

text \<open>
  \<^verbatim>\<open>FileUnit\<close> (Module.h:647) is the abstract base of the three classes of the header:
  \<^verbatim>\<open>SourceFile\<close>, \<^verbatim>\<open>BuiltinUnit\<close> and \<^verbatim>\<open>LoadedFile\<close>. A virtual member function is a
  function on this type with one equation per class: the override where the class has one,
  the body of \<^verbatim>\<open>FileUnit\<close> where it has none.
\<close>

datatype FileUnit =
    FileUnit_SourceFile SourceFile
  | FileUnit_BuiltinUnit
  | FileUnit_LoadedFile LoadedFile

fun getKind :: "FileUnit \<Rightarrow> FileUnitKind" where
  "getKind (FileUnit_SourceFile SF) = Source"
| "getKind FileUnit_BuiltinUnit = Builtin"
| "getKind (FileUnit_LoadedFile LF) = LoadedFile_Kind LF"

text \<open>\<^verbatim>\<open>SourceFile::isScriptMode\<close> (Module.h:1243).\<close>

fun isScriptMode :: "SourceFile \<Rightarrow> bool" where
  "isScriptMode SF =
     (case Kind SF of
        Main \<Rightarrow> True
      | REPL \<Rightarrow> True
      | Library \<Rightarrow> False
      | Interface \<Rightarrow> False
      | SIL \<Rightarrow> False)"

text \<open>
  \<^verbatim>\<open>hasEntryPoint\<close>, \<^verbatim>\<open>getMainClass\<close> (virtual) and \<^verbatim>\<open>hasMainClass\<close>
  (Module.h:853-862, 1257, 1275). \<^verbatim>\<open>SourceFile\<close> overrides both virtual members;
  \<^verbatim>\<open>BuiltinUnit\<close> and \<^verbatim>\<open>LoadedFile\<close> override neither. The body of \<^verbatim>\<open>FileUnit\<close> for
  \<^verbatim>\<open>getMainClass\<close> asserts \<^verbatim>\<open>hasEntryPoint()\<close> before it returns \<^verbatim>\<open>nullptr\<close>.
\<close>

definition FileUnit_hasEntryPoint_default :: bool where
  "FileUnit_hasEntryPoint_default = False"

definition SourceFile_getMainClass :: "SourceFile \<Rightarrow> ClassDecl_ptr option" where
  "SourceFile_getMainClass SF = MainClass SF"

definition SourceFile_hasMainClass :: "SourceFile \<Rightarrow> bool" where
  "SourceFile_hasMainClass SF = (SourceFile_getMainClass SF \<noteq> None)"

definition SourceFile_hasEntryPoint :: "SourceFile \<Rightarrow> bool" where
  "SourceFile_hasEntryPoint SF = (isScriptMode SF \<or> SourceFile_hasMainClass SF)"

fun hasEntryPoint :: "FileUnit \<Rightarrow> bool" where
  "hasEntryPoint (FileUnit_SourceFile SF) = SourceFile_hasEntryPoint SF"
| "hasEntryPoint FileUnit_BuiltinUnit = FileUnit_hasEntryPoint_default"
| "hasEntryPoint (FileUnit_LoadedFile LF) = FileUnit_hasEntryPoint_default"

fun getMainClass :: "FileUnit \<Rightarrow> error + ClassDecl_ptr option" where
  "getMainClass (FileUnit_SourceFile SF) = Inr (SourceFile_getMainClass SF)"
| "getMainClass F =
     (if \<not> hasEntryPoint F then Inl (AssertionFailure ''hasEntryPoint()'') else Inr None)"

text \<open>
  \<^verbatim>\<open>getImportedModules\<close> and \<^verbatim>\<open>getImportedModulesForLookup\<close> (Module.h:804-812), both
  virtual, append to the vector \<open>imports\<close>. The body of \<^verbatim>\<open>FileUnit\<close> for the first is empty.
  \<^verbatim>\<open>SourceFile\<close> declares an override of the first (Module.h:1171) whose body is outside
  the header: it is the parameter \<open>SourceFile_getImportedModules\<close>. No class of the header
  overrides the second.
\<close>

fun getImportedModules ::
  "(SourceFile \<Rightarrow> ImportedModule list \<Rightarrow> ImportFilter \<Rightarrow> ImportedModule list) \<Rightarrow>
   FileUnit \<Rightarrow> ImportedModule list \<Rightarrow> ImportFilter \<Rightarrow> ImportedModule list" where
  "getImportedModules SourceFile_getImportedModules (FileUnit_SourceFile SF) imports filter' =
     SourceFile_getImportedModules SF imports filter'"
| "getImportedModules SourceFile_getImportedModules F imports filter' = imports"

definition getImportedModulesForLookup ::
  "(SourceFile \<Rightarrow> ImportedModule list \<Rightarrow> ImportFilter \<Rightarrow> ImportedModule list) \<Rightarrow>
   FileUnit \<Rightarrow> ImportedModule list \<Rightarrow> ImportedModule list" where
  "getImportedModulesForLookup SourceFile_getImportedModules F imports =
     getImportedModules SourceFile_getImportedModules F imports (ImportFilterKind_raw Public)"

text \<open>
  \<^verbatim>\<open>ModuleDecl::getImportedModules\<close> (Module.h:476) is declared with the default argument
  \<^verbatim>\<open>ImportFilter filter = ImportFilterKind::Public\<close>; its body is outside the header and is the
  parameter \<open>body\<close>. A call that leaves the argument out passes \<open>None\<close>.
\<close>

definition ModuleDecl_getImportedModules ::
  "(ModuleDecl_ptr \<Rightarrow> ImportedModule list \<Rightarrow> ImportFilter \<Rightarrow> ImportedModule list) \<Rightarrow>
   ModuleDecl_ptr \<Rightarrow> ImportedModule list \<Rightarrow> ImportFilter option \<Rightarrow> ImportedModule list" where
  "ModuleDecl_getImportedModules body M imports filter' =
     body M imports (case filter' of None \<Rightarrow> ImportFilterKind_raw Public | Some f \<Rightarrow> f)"

text \<open>
  \<^verbatim>\<open>getDiscriminatorForPrivateValue\<close> is pure virtual in \<^verbatim>\<open>FileUnit\<close> (Module.h:763).
  \<^verbatim>\<open>BuiltinUnit\<close> overrides it with \<^verbatim>\<open>llvm_unreachable\<close> (Module.h:1374); the override of
  \<^verbatim>\<open>SourceFile\<close> and those of the classes derived from \<^verbatim>\<open>LoadedFile\<close> have their bodies
  outside the header and are parameters.
\<close>

definition BuiltinUnit_getDiscriminatorForPrivateValue ::
  "ValueDecl_ptr \<Rightarrow> error + Identifier" where
  "BuiltinUnit_getDiscriminatorForPrivateValue D =
     Inl (Unreachable ''no private values in the Builtin module'')"

fun getDiscriminatorForPrivateValue ::
  "(SourceFile \<Rightarrow> ValueDecl_ptr \<Rightarrow> error + Identifier) \<Rightarrow>
   (LoadedFile \<Rightarrow> ValueDecl_ptr \<Rightarrow> error + Identifier) \<Rightarrow>
   FileUnit \<Rightarrow> ValueDecl_ptr \<Rightarrow> error + Identifier" where
  "getDiscriminatorForPrivateValue ofSourceFile ofLoadedFile (FileUnit_SourceFile SF) D =
     ofSourceFile SF D"
| "getDiscriminatorForPrivateValue ofSourceFile ofLoadedFile FileUnit_BuiltinUnit D =
     BuiltinUnit_getDiscriminatorForPrivateValue D"
| "getDiscriminatorForPrivateValue ofSourceFile ofLoadedFile (FileUnit_LoadedFile LF) D =
     ofLoadedFile LF D"

subsection \<open>Loaded files: the file names of private declarations\<close>

text \<open>
  The constructor of \<^verbatim>\<open>LoadedFile\<close> (Module.h:1392) asserts \<^verbatim>\<open>classof(this)\<close>
  (Module.h:1450); the map starts empty.
\<close>

definition LoadedFile_classof :: "FileUnitKind \<Rightarrow> bool" where
  "LoadedFile_classof kind =
     (kind = SerializedAST \<or> kind = ClangModule \<or> kind = DWARFModule)"

definition LoadedFile_ctor :: "FileUnitKind \<Rightarrow> error + LoadedFile" where
  "LoadedFile_ctor kind =
     (if \<not> LoadedFile_classof kind then Inl (AssertionFailure ''invalid kind'')
      else Inr \<lparr>LoadedFile_Kind = kind, FilenameForPrivateDecls = Map.empty\<rparr>)"

text \<open>
  \<^verbatim>\<open>addFilenameForPrivateDecl\<close> and \<^verbatim>\<open>getFilenameForPrivateDecl\<close> (Module.h:1407-1418).
  In the assertion \<^verbatim>\<open>FilenameForPrivateDecls[decl]\<close> is only evaluated when the key is
  present. \<^verbatim>\<open>Identifier::str()\<close> is the text of the identifier and \<^verbatim>\<open>StringRef()\<close> the
  empty string.
\<close>

definition addFilenameForPrivateDecl ::
  "ValueDecl_ptr \<Rightarrow> Identifier \<Rightarrow> LoadedFile \<Rightarrow> error + LoadedFile" where
  "addFilenameForPrivateDecl decl id' LF =
     (if \<not> (case FilenameForPrivateDecls LF decl of None \<Rightarrow> True | Some old \<Rightarrow> old = id')
      then Inl (AssertionFailure
             ''!FilenameForPrivateDecls.count(decl) || FilenameForPrivateDecls[decl] == id'')
      else Inr (LF\<lparr>FilenameForPrivateDecls := (FilenameForPrivateDecls LF)(decl \<mapsto> id')\<rparr>))"

definition getFilenameForPrivateDecl :: "ValueDecl_ptr \<Rightarrow> LoadedFile \<Rightarrow> string" where
  "getFilenameForPrivateDecl decl LF =
     (case FilenameForPrivateDecls LF decl of
        None \<Rightarrow> ''''
      | Some second \<Rightarrow> second)"

text \<open>A sequence of calls of \<open>addFilenameForPrivateDecl\<close>; a trap ends it.\<close>

fun addFilenamesForPrivateDecls ::
  "(ValueDecl_ptr \<times> Identifier) list \<Rightarrow> LoadedFile \<Rightarrow> error + LoadedFile" where
  "addFilenamesForPrivateDecls [] LF = Inr LF"
| "addFilenamesForPrivateDecls ((decl, id') # rest) LF =
     (case addFilenameForPrivateDecl decl id' LF of
        Inl e \<Rightarrow> Inl e
      | Inr LF' \<Rightarrow> addFilenamesForPrivateDecls rest LF')"

subsection \<open>The traversal of the visible modules\<close>

text \<open>
  The header declares \<^verbatim>\<open>ModuleDecl::forAllVisibleModules\<close> for a callback that returns
  \<^verbatim>\<open>bool\<close> (Module.h:539) and defines the overload for a callback that returns \<^verbatim>\<open>void\<close>
  (Module.h:542) by a call of the first. A callback may have effects of its own: it is a
  function of the import record and of a state \<open>'s\<close>, and returns the new state.

  A module graph gives every module pointer the import edges of the module; the kind of an
  edge is read from its flags as the header documents \<^verbatim>\<open>ImportFilterKind\<close>:
  \<^verbatim>\<open>Public\<close> for imports declared exported, \<^verbatim>\<open>ImplementationOnly\<close> for imports declared
  implementation-only, \<^verbatim>\<open>Private\<close> for imports with no special annotation.
\<close>

type_synonym ModuleGraph = "(ModuleDecl_ptr \<times> ImportedModuleDesc list) list"

definition importsOf :: "ModuleGraph \<Rightarrow> ModuleDecl_ptr \<Rightarrow> ImportedModuleDesc list" where
  "importsOf G M = (case map_of G M of None \<Rightarrow> [] | Some edges \<Rightarrow> edges)"

definition importKind :: "ImportedModuleDesc \<Rightarrow> ImportFilterKind" where
  "importKind D =
     (if OptionSet_contains (importOptions D) (ImportFlags_raw Exported) then Public
      else if OptionSet_contains (importOptions D)
                (ImportFlags_raw ImportFlags.ImplementationOnly)
      then ImportFilterKind.ImplementationOnly
      else Private)"

definition importsPassing ::
  "ModuleGraph \<Rightarrow> ModuleDecl_ptr \<Rightarrow> ImportFilter \<Rightarrow> ImportedModule list" where
  "importsPassing G M filter' =
     map module
       (filter (\<lambda>D. OptionSet_contains filter' (ImportFilterKind_raw (importKind D)))
          (importsOf G M))"

text \<open>
  Modelled from the spec: the filters of \<^verbatim>\<open>forAllVisibleModules\<close>, whose body is not in
  the header. The spec (4.2): "visit every module transitively reachable via edges whose
  flags pass the lookup-relevant filter (Public \<union> Private, excluding pure
  ImplementationOnly edges beyond the directly-importing file -- an implementation-only
  import is visible to its own importer but must not propagate further)". The edges of the
  starting module pass \<open>directFilter\<close>, the edges of every other module
  \<open>lookupRelevantFilter\<close>.
\<close>

definition lookupRelevantFilter :: ImportFilter where
  "lookupRelevantFilter =
     OptionSet_or (ImportFilterKind_raw Public) (ImportFilterKind_raw Private)"

definition directFilter :: ImportFilter where
  "directFilter =
     OptionSet_or lookupRelevantFilter (ImportFilterKind_raw ImportFilterKind.ImplementationOnly)"

text \<open>
  The identity of an import record under the path-equality rule, and the import records of
  all edges of a graph; they measure what is left to visit in the termination argument.
\<close>

definition importKey :: "ImportedModule \<Rightarrow> Identifier list \<times> ModuleDecl_ptr" where
  "importKey I = (map fst (fst I), snd I)"

definition graphImports :: "ModuleGraph \<Rightarrow> ImportedModule set" where
  "graphImports G = module ` (\<Union>edges \<in> snd ` set G. set edges)"

text \<open>
  Modelled from the spec: the loop of \<^verbatim>\<open>forAllVisibleModules\<close> for a \<^verbatim>\<open>bool\<close> callback,
  whose body is not in the header. The spec (4.2): "visit each distinct (access-path,
  module) pair at most once, using the path-equality rule"; "the visitor callback may
  signal stop and the overall call reports whether it ran to completion"; the order of the
  visits is left open. The loop keeps a stack of import records still to look at and the
  records visited so far, compared by \<open>isEqual\<close>. It returns whether it ran to
  completion, the calls of the callback in order, each with the value the callback
  returned, and the final state of the callback.
\<close>

function visitModules ::
  "ModuleGraph \<Rightarrow> (ImportedModule \<Rightarrow> 's \<Rightarrow> bool \<times> 's) \<Rightarrow>
   ImportedModule list \<Rightarrow> ImportedModule list \<Rightarrow> 's \<Rightarrow>
   bool \<times> (ImportedModule \<times> bool) list \<times> 's" where
  "visitModules G fn [] visited s = (True, [], s)"
| "visitModules G fn (current # stack) visited s =
     (if list_ex (isEqual current) visited then visitModules G fn stack visited s
      else (case fn current s of
              (continue, s') \<Rightarrow>
                if \<not> continue then (False, [(current, False)], s')
                else (case visitModules G fn
                             (importsPassing G (snd current) lookupRelevantFilter @ stack)
                             (current # visited) s' of
                        (completed, calls, s'') \<Rightarrow>
                          (completed, (current, True) # calls, s''))))"
  by pat_completeness auto
termination
proof (relation "inv_image (less_than <*lex*> less_than)
         (\<lambda>(G, fn, stack, visited, s).
            (card (importKey ` (set stack \<union> graphImports G) - importKey ` set visited),
             length stack))")
  show "wf (inv_image (less_than <*lex*> less_than)
         (\<lambda>(G, fn :: ImportedModule \<Rightarrow> 's \<Rightarrow> bool \<times> 's, stack, visited, s).
            (card (importKey ` (set stack \<union> graphImports G) - importKey ` set visited),
             length stack)))"
    by (intro wf_inv_image wf_lex_prod wf_less_than)
next
  have same: "isSameAccessPath lhs rhs \<longleftrightarrow> map fst lhs = map fst rhs" for lhs rhs
    by (induction lhs rhs rule: isSameAccessPath.induct) auto
  have seen: "list_ex (isEqual I) visited \<longleftrightarrow> importKey I \<in> importKey ` set visited"
    for I visited
    by (auto simp: list_ex_iff isEqual_def importKey_def same)
  fix G :: ModuleGraph and fn :: "ImportedModule \<Rightarrow> 's \<Rightarrow> bool \<times> 's"
    and current stack visited and s :: 's
  assume "list_ex (isEqual current) visited"
  then have "importKey ` (set (current # stack) \<union> graphImports G) - importKey ` set visited =
      importKey ` (set stack \<union> graphImports G) - importKey ` set visited"
    by (auto simp: seen)
  then show "((G, fn, stack, visited, s), G, fn, current # stack, visited, s)
      \<in> inv_image (less_than <*lex*> less_than)
         (\<lambda>(G, fn, stack, visited, s).
            (card (importKey ` (set stack \<union> graphImports G) - importKey ` set visited),
             length stack))"
    by simp
next
  have same: "isSameAccessPath lhs rhs \<longleftrightarrow> map fst lhs = map fst rhs" for lhs rhs
    by (induction lhs rhs rule: isSameAccessPath.induct) auto
  have seen: "list_ex (isEqual I) visited \<longleftrightarrow> importKey I \<in> importKey ` set visited"
    for I visited
    by (auto simp: list_ex_iff isEqual_def importKey_def same)
  have edges: "set (importsPassing G M f) \<subseteq> graphImports G" for G M f
  proof -
    have "set (importsOf G M) \<subseteq> (\<Union>edges \<in> snd ` set G. set edges)"
    proof (cases "map_of G M")
      case None
      then show ?thesis by (simp add: importsOf_def)
    next
      case (Some edges)
      then have "(M, edges) \<in> set G" by (rule map_of_SomeD)
      then have "set edges \<subseteq> (\<Union>edges \<in> snd ` set G. set edges)" by force
      with Some show ?thesis by (simp add: importsOf_def)
    qed
    then have "module ` set (importsOf G M) \<subseteq> graphImports G"
      unfolding graphImports_def by (rule image_mono)
    moreover have "set (importsPassing G M f) \<subseteq> module ` set (importsOf G M)"
      by (auto simp: importsPassing_def)
    ultimately show ?thesis by (rule order_trans [rotated])
  qed
  fix G :: ModuleGraph and fn :: "ImportedModule \<Rightarrow> 's \<Rightarrow> bool \<times> 's"
    and current stack visited and s s' :: 's and x :: "bool \<times> 's" and continue
  assume new: "\<not> list_ex (isEqual current) visited"
  let ?old = "importKey ` (set (current # stack) \<union> graphImports G) - importKey ` set visited"
  let ?new = "importKey ` (set (importsPassing G (snd current) lookupRelevantFilter @ stack)
                 \<union> graphImports G) - importKey ` set (current # visited)"
  from new have "importKey current \<in> ?old" by (simp add: seen)
  moreover have "importKey current \<notin> ?new" by simp
  moreover from edges [of G "snd current" lookupRelevantFilter] have "?new \<subseteq> ?old" by auto
  ultimately have "?new \<subset> ?old" by blast
  moreover have "finite ?old" by (simp add: graphImports_def)
  ultimately have "card ?new < card ?old" by (rule psubset_card_mono [rotated])
  then show "((G, fn, importsPassing G (snd current) lookupRelevantFilter @ stack,
        current # visited, s'), G, fn, current # stack, visited, s)
      \<in> inv_image (less_than <*lex*> less_than)
         (\<lambda>(G, fn, stack, visited, s).
            (card (importKey ` (set stack \<union> graphImports G) - importKey ` set visited),
             length stack))"
    by simp
qed

text \<open>
  Modelled from the spec: the entry of \<^verbatim>\<open>forAllVisibleModules\<close> (declared at
  Module.h:539, "If present, include the top-level module in the results, with the given
  access path"). The traversal from a module \<open>M\<close> looks at \<open>M\<close> itself under the given
  access path, then at the modules its own edges lead to.
\<close>

definition forAllVisibleModules ::
  "ModuleGraph \<Rightarrow> ModuleDecl_ptr \<Rightarrow> AccessPathTy \<Rightarrow>
   (ImportedModule \<Rightarrow> 's \<Rightarrow> bool \<times> 's) \<Rightarrow> 's \<Rightarrow>
   bool \<times> (ImportedModule \<times> bool) list \<times> 's" where
  "forAllVisibleModules G M topLevelAccessPath fn s =
     visitModules G fn ((topLevelAccessPath, M) # importsPassing G M directFilter) [] s"

text \<open>
  The overload for a \<^verbatim>\<open>void\<close> callback (Module.h:542-549) wraps the callback in one that
  runs it and returns \<^verbatim>\<open>true\<close>.
\<close>

definition forAllVisibleModules_void ::
  "ModuleGraph \<Rightarrow> ModuleDecl_ptr \<Rightarrow> AccessPathTy \<Rightarrow>
   (ImportedModule \<Rightarrow> 's \<Rightarrow> 's) \<Rightarrow> 's \<Rightarrow>
   bool \<times> (ImportedModule \<times> bool) list \<times> 's" where
  "forAllVisibleModules_void G M topLevelAccessPath fn s =
     forAllVisibleModules G M topLevelAccessPath (\<lambda>import s. (True, fn import s)) s"

section \<open>Properties\<close>

subsection \<open>Access paths and import records\<close>

lemma isSameAccessPath_iff_identifiers:
  "isSameAccessPath lhs rhs \<longleftrightarrow> map fst lhs = map fst rhs"
  by (induction lhs rhs rule: isSameAccessPath.induct) auto

lemma isEqual_iff_key:
  "isEqual lhs rhs \<longleftrightarrow> (map fst (fst lhs), snd lhs) = (map fst (fst rhs), snd rhs)"
  by (auto simp: isEqual_def isSameAccessPath_iff_identifiers)

text \<open>
  C2. Two import records are equal under \<open>isEqual\<close> exactly when they hold the same module
  pointer and their access paths carry the same chain of identifiers; the source locations
  play no part, so replacing every location of a path (by any \<open>reloc\<close>) gives an equal
  record.
\<close>

theorem isEqual_same_module_same_identifiers:
  "(isEqual lhs rhs \<longleftrightarrow> snd lhs = snd rhs \<and> map fst (fst lhs) = map fst (fst rhs)) \<and>
   isEqual (map (\<lambda>e. (fst e, reloc e)) path, M) (path, M)"
  by (simp add: isEqual_def isSameAccessPath_iff_identifiers comp_def)

text \<open>
  C6. On an access path of at most one element \<open>matchesAccessPath\<close> returns, and its
  result is true exactly when the path is empty or its single identifier matches the name;
  the empty path matches every name.
\<close>

theorem matchesAccessPath_empty_or_single_match:
  "length AccessPath \<le> 1 \<Longrightarrow>
     matchesAccessPath DeclName matchesRef AccessPath Name =
       Inr (AccessPath = [] \<or>
            (\<exists>I L. AccessPath = [(I, L)] \<and> matchesRef (DeclName I) Name)) \<and>
     matchesAccessPath DeclName matchesRef [] Name = Inr True"
  by (cases AccessPath) (auto simp: matchesAccessPath_def)

theorem matchesAccessPath_empty_or_single_match_witness:
  "length [(''max'', 7 :: nat)] \<le> 1 \<and>
   matchesAccessPath (\<lambda>I. I) (=) [(''max'', 7)] ''max'' = Inr True \<and>
   matchesAccessPath (\<lambda>I. I) (=) [(''max'', 7)] ''min'' = Inr False \<and>
   matchesAccessPath (\<lambda>I. I) (=) [] ''min'' = Inr True"
  using matchesAccessPath_empty_or_single_match
          [of "[(''max'', 7)]" "\<lambda>I. I" "(=)" "''max''"]
        matchesAccessPath_empty_or_single_match
          [of "[(''max'', 7)]" "\<lambda>I. I" "(=)" "''min''"]
  by simp

subsection \<open>The entry-point record\<close>

lemma OptionSet_contains_or_self:
  "OptionSet_contains (OptionSet_or S f) f"
  by (simp add: OptionSet_contains_def OptionSet_or_def bit_eq_iff bit_simps)

lemma Flags_contains_other:
  "f \<noteq> g \<Longrightarrow>
   OptionSet_contains (OptionSet_or S (Flags_raw g)) (Flags_raw f) =
   OptionSet_contains S (Flags_raw f)"
  by (cases f; cases g) (auto simp add: OptionSet_contains_def OptionSet_or_def bit_eq_iff bit_simps)

lemma Flags_default_empty:
  "\<not> OptionSet_contains (storage_Int EntryPointInfoTy_default) (Flags_raw f)"
  by (cases f) (simp_all add: OptionSet_contains_def EntryPointInfoTy_default_def)

lemma call_pointer:
  "EntryPointInfoTy_call c E = Inr (r, E') \<Longrightarrow> storage_Pointer E = Some F \<Longrightarrow>
   storage_Pointer E' = Some F"
  by (cases c)
     (auto simp: setEntryPointFile_def markDiagnosedMultipleMainClasses_def
        markDiagnosedMainClassWithScript_def Let_def split: if_splits)

lemma calls_pointer:
  "EntryPointInfoTy_calls cs E = Inr (ress, E') \<Longrightarrow> storage_Pointer E = Some F \<Longrightarrow>
   storage_Pointer E' = Some F"
proof (induction cs arbitrary: E ress)
  case Nil
  then show ?case by simp
next
  case (Cons c cs)
  from Cons.prems(1) obtain r E1 rs where
    c: "EntryPointInfoTy_call c E = Inr (r, E1)" and
    cs: "EntryPointInfoTy_calls cs E1 = Inr (rs, E')"
    by (auto split: sum.splits prod.splits)
  from call_pointer [OF c Cons.prems(2)] have "storage_Pointer E1 = Some F" .
  with Cons.IH [OF cs] show ?case by simp
qed

text \<open>
  C3. The entry-point file of a module is written once. On a record without an entry-point
  file \<open>setEntryPointFile\<close> stores its argument; on a record that has one it fails its
  assertion; and from a record that has one, every run of calls of the three mutating members
  that does not trap ends with the same entry-point file.
\<close>

theorem entry_point_file_write_once:
  "(\<not> EntryPointInfoTy_hasEntryPoint E \<longrightarrow>
      (\<exists>E'. setEntryPointFile file E = Inr E' \<and> getEntryPointFile E' = file)) \<and>
   (EntryPointInfoTy_hasEntryPoint E \<longrightarrow>
      setEntryPointFile file E = Inl (AssertionFailure ''!storage.getPointer()'')) \<and>
   (EntryPointInfoTy_hasEntryPoint E \<and> EntryPointInfoTy_calls cs E = Inr (ress, E') \<longrightarrow>
      EntryPointInfoTy_hasEntryPoint E' \<and> getEntryPointFile E' = getEntryPointFile E)"
proof (intro conjI impI)
  assume "\<not> EntryPointInfoTy_hasEntryPoint E"
  then show "\<exists>E'. setEntryPointFile file E = Inr E' \<and> getEntryPointFile E' = file"
    by (simp add: EntryPointInfoTy_hasEntryPoint_def setEntryPointFile_def
          getEntryPointFile_def)
next
  assume "EntryPointInfoTy_hasEntryPoint E"
  then show "setEntryPointFile file E = Inl (AssertionFailure ''!storage.getPointer()'')"
    by (simp add: EntryPointInfoTy_hasEntryPoint_def setEntryPointFile_def)
next
  assume a: "EntryPointInfoTy_hasEntryPoint E \<and> EntryPointInfoTy_calls cs E = Inr (ress, E')"
  then obtain F where F: "storage_Pointer E = Some F"
    by (auto simp: EntryPointInfoTy_hasEntryPoint_def)
  from a calls_pointer [OF _ F] have "storage_Pointer E' = Some F" by blast
  with F show "EntryPointInfoTy_hasEntryPoint E'"
    and "getEntryPointFile E' = getEntryPointFile E"
    by (simp_all add: EntryPointInfoTy_hasEntryPoint_def getEntryPointFile_def)
qed

theorem entry_point_file_write_once_witness:
  "\<not> EntryPointInfoTy_hasEntryPoint EntryPointInfoTy_default \<and>
   setEntryPointFile (Some 7) EntryPointInfoTy_default =
     Inr \<lparr>storage_Pointer = Some 7, storage_Int = 0\<rparr> \<and>
   EntryPointInfoTy_hasEntryPoint \<lparr>storage_Pointer = Some 7, storage_Int = 0\<rparr> \<and>
   setEntryPointFile (Some 8) \<lparr>storage_Pointer = Some 7, storage_Int = 0\<rparr> =
     Inl (AssertionFailure ''!storage.getPointer()'') \<and>
   EntryPointInfoTy_calls
     [Call_markDiagnosedMultipleMainClasses, Call_markDiagnosedMainClassWithScript]
     \<lparr>storage_Pointer = Some 7, storage_Int = 0\<rparr> =
     Inr ([Some True, Some True], \<lparr>storage_Pointer = Some 7, storage_Int = 3\<rparr>) \<and>
   getEntryPointFile \<lparr>storage_Pointer = Some 7, storage_Int = 3\<rparr> = Some 7"
  using entry_point_file_write_once
          [of EntryPointInfoTy_default "Some 7" "[]" "[]" EntryPointInfoTy_default]
        entry_point_file_write_once
          [of "\<lparr>storage_Pointer = Some 7, storage_Int = 0\<rparr>" "Some 8"
              "[Call_markDiagnosedMultipleMainClasses, Call_markDiagnosedMainClassWithScript]"
              "[Some True, Some True]" "\<lparr>storage_Pointer = Some 7, storage_Int = 3\<rparr>"]
  by (simp add: EntryPointInfoTy_hasEntryPoint_def EntryPointInfoTy_default_def
        setEntryPointFile_def getEntryPointFile_def markDiagnosedMultipleMainClasses_def
        markDiagnosedMainClassWithScript_def OptionSet_contains_def OptionSet_or_def)

lemma mark_call_inj: "mark_call f = mark_call g \<longleftrightarrow> f = g"
  by (cases f; cases g) simp_all

lemma mark_call_not_set: "mark_call f \<noteq> Call_setEntryPointFile file"
  by (cases f) simp_all

text \<open>What one call does to a flag \<open>f\<close>: its own mark answers whether the flag was
  clear and sets it; every other call leaves it alone.\<close>

lemma call_flag:
  assumes "EntryPointInfoTy_call c E = Inr (r, E1)"
  shows "(c = mark_call f \<longrightarrow>
            r = Some (\<not> OptionSet_contains (storage_Int E) (Flags_raw f)) \<and>
            OptionSet_contains (storage_Int E1) (Flags_raw f)) \<and>
         (c \<noteq> mark_call f \<longrightarrow>
            OptionSet_contains (storage_Int E1) (Flags_raw f) =
            OptionSet_contains (storage_Int E) (Flags_raw f))"
proof (cases c)
  case (Call_setEntryPointFile new)
  with assms show ?thesis
    by (auto simp: setEntryPointFile_def mark_call_not_set [symmetric] split: if_splits)
next
  case Call_markDiagnosedMultipleMainClasses
  with assms have
    r: "r = Some (\<not> OptionSet_contains (storage_Int E) (Flags_raw DiagnosedMultipleMainClasses))"
    and E1: "storage_Int E1 =
      OptionSet_or (storage_Int E) (Flags_raw DiagnosedMultipleMainClasses)"
    by (auto simp del: Flags_raw.simps simp: markDiagnosedMultipleMainClasses_def Let_def)
  show ?thesis
  proof (cases "f = DiagnosedMultipleMainClasses")
    case True
    with r E1 Call_markDiagnosedMultipleMainClasses show ?thesis
      by (simp del: Flags_raw.simps add: OptionSet_contains_or_self)
  next
    case False
    with E1 Call_markDiagnosedMultipleMainClasses
      Flags_contains_other [OF False, of "storage_Int E"]
    show ?thesis
      by (cases f) (simp_all del: Flags_raw.simps)
  qed
next
  case Call_markDiagnosedMainClassWithScript
  with assms have
    r: "r = Some (\<not> OptionSet_contains (storage_Int E) (Flags_raw DiagnosedMainClassWithScript))"
    and E1: "storage_Int E1 =
      OptionSet_or (storage_Int E) (Flags_raw DiagnosedMainClassWithScript)"
    by (auto simp del: Flags_raw.simps simp: markDiagnosedMainClassWithScript_def Let_def)
  show ?thesis
  proof (cases "f = DiagnosedMainClassWithScript")
    case True
    with r E1 Call_markDiagnosedMainClassWithScript show ?thesis
      by (simp del: Flags_raw.simps add: OptionSet_contains_or_self)
  next
    case False
    with E1 Call_markDiagnosedMainClassWithScript
      Flags_contains_other [OF False, of "storage_Int E"]
    show ?thesis
      by (cases f) (simp_all del: Flags_raw.simps)
  qed
qed

lemma results_of_Cons:
  "results_of c (d # cs) (r # rs) = (if d = c then r # results_of c cs rs else results_of c cs rs)"
  by (simp add: results_of_def)

lemma calls_flag:
  "EntryPointInfoTy_calls cs E = Inr (ress, E') \<Longrightarrow>
   results_of (mark_call f) cs ress =
     (if OptionSet_contains (storage_Int E) (Flags_raw f)
      then replicate (count_list cs (mark_call f)) (Some False)
      else first_time_only (count_list cs (mark_call f))) \<and>
   (OptionSet_contains (storage_Int E') (Flags_raw f) \<longleftrightarrow>
      OptionSet_contains (storage_Int E) (Flags_raw f) \<or> mark_call f \<in> set cs)"
proof (induction cs arbitrary: E ress)
  case Nil
  then show ?case by (simp add: results_of_def)
next
  case (Cons c cs)
  from Cons.prems obtain r E1 rs where
    c: "EntryPointInfoTy_call c E = Inr (r, E1)" and
    cs: "EntryPointInfoTy_calls cs E1 = Inr (rs, E')" and
    ress: "ress = r # rs"
    by (auto split: sum.splits prod.splits)
  note IH = Cons.IH [OF cs]
  note step = call_flag [OF c, of f]
  show ?case
  proof (cases "c = mark_call f")
    case True
    with step IH ress show ?thesis
      by (cases "count_list cs (mark_call f)") (auto simp: results_of_Cons)
  next
    case False
    with step IH ress show ?thesis
      by (auto simp: results_of_Cons)
  qed
qed

text \<open>
  C4. In any run of calls on the entry-point record of a fresh module, the calls of each of
  the two \<open>markDiagnosed...\<close> members return true the first time and false every later
  time, whatever the other calls of the run are; the flag is set exactly when its member
  has been called, and in every continuation of the run it stays set and the member keeps
  returning false.
\<close>

theorem diagnosed_flags_report_once:
  assumes "EntryPointInfoTy_calls cs EntryPointInfoTy_default = Inr (ress, E')"
  shows "results_of (mark_call f) cs ress = first_time_only (count_list cs (mark_call f)) \<and>
         (OptionSet_contains (storage_Int E') (Flags_raw f) \<longleftrightarrow> mark_call f \<in> set cs) \<and>
         (\<forall>cs' ress' E''.
            OptionSet_contains (storage_Int E') (Flags_raw f) \<and>
            EntryPointInfoTy_calls cs' E' = Inr (ress', E'') \<longrightarrow>
              OptionSet_contains (storage_Int E'') (Flags_raw f) \<and>
              results_of (mark_call f) cs' ress' =
                replicate (count_list cs' (mark_call f)) (Some False))"
proof -
  from calls_flag [OF assms, of f] Flags_default_empty [of f]
  have "results_of (mark_call f) cs ress = first_time_only (count_list cs (mark_call f))"
    and "OptionSet_contains (storage_Int E') (Flags_raw f) \<longleftrightarrow> mark_call f \<in> set cs"
    by simp_all
  moreover have "OptionSet_contains (storage_Int E'') (Flags_raw f) \<and>
        results_of (mark_call f) cs' ress' =
          replicate (count_list cs' (mark_call f)) (Some False)"
    if "OptionSet_contains (storage_Int E') (Flags_raw f)"
      and "EntryPointInfoTy_calls cs' E' = Inr (ress', E'')" for cs' ress' E''
    using calls_flag [OF that(2), of f] that(1) by simp
  ultimately show ?thesis by blast
qed

theorem diagnosed_flags_report_once_witness:
  "EntryPointInfoTy_calls
     [Call_markDiagnosedMultipleMainClasses, Call_markDiagnosedMainClassWithScript,
      Call_markDiagnosedMultipleMainClasses, Call_setEntryPointFile (Some 4),
      Call_markDiagnosedMultipleMainClasses, Call_markDiagnosedMainClassWithScript]
     EntryPointInfoTy_default =
     Inr ([Some True, Some True, Some False, None, Some False, Some False],
          \<lparr>storage_Pointer = Some 4, storage_Int = 3\<rparr>) \<and>
   results_of Call_markDiagnosedMultipleMainClasses
     [Call_markDiagnosedMultipleMainClasses, Call_markDiagnosedMainClassWithScript,
      Call_markDiagnosedMultipleMainClasses, Call_setEntryPointFile (Some 4),
      Call_markDiagnosedMultipleMainClasses, Call_markDiagnosedMainClassWithScript]
     [Some True, Some True, Some False, None, Some False, Some False] =
     [Some True, Some False, Some False] \<and>
   OptionSet_contains 3 (Flags_raw DiagnosedMultipleMainClasses) \<and>
   EntryPointInfoTy_calls [Call_markDiagnosedMultipleMainClasses]
     \<lparr>storage_Pointer = Some 4, storage_Int = 3\<rparr> =
     Inr ([Some False], \<lparr>storage_Pointer = Some 4, storage_Int = 3\<rparr>)"
proof -
  let ?cs = "[Call_markDiagnosedMultipleMainClasses, Call_markDiagnosedMainClassWithScript,
      Call_markDiagnosedMultipleMainClasses, Call_setEntryPointFile (Some 4),
      Call_markDiagnosedMultipleMainClasses, Call_markDiagnosedMainClassWithScript]"
  let ?ress = "[Some True, Some True, Some False, None, Some False, Some False]"
  let ?E = "\<lparr>storage_Pointer = Some 4, storage_Int = 3\<rparr>"
  have run: "EntryPointInfoTy_calls ?cs EntryPointInfoTy_default = Inr (?ress, ?E)"
    by (simp add: EntryPointInfoTy_default_def setEntryPointFile_def
          markDiagnosedMultipleMainClasses_def markDiagnosedMainClassWithScript_def
          OptionSet_contains_def OptionSet_or_def)
  have again: "EntryPointInfoTy_calls [Call_markDiagnosedMultipleMainClasses] ?E =
      Inr ([Some False], ?E)"
    by (simp add: markDiagnosedMultipleMainClasses_def OptionSet_contains_def OptionSet_or_def)
  have set: "OptionSet_contains (storage_Int ?E) (Flags_raw DiagnosedMultipleMainClasses)"
    by (simp add: OptionSet_contains_def)
  from diagnosed_flags_report_once [OF run, of DiagnosedMultipleMainClasses] run again set
  show ?thesis by simp
qed

subsection \<open>Import edges and file units\<close>

text \<open>
  C5. Every \<open>ImportedModuleDesc\<close> that its constructor returns holds the constructor's
  arguments and does not have both \<^verbatim>\<open>Exported\<close> and \<^verbatim>\<open>ImplementationOnly\<close> among its
  options; with both flags the constructor fails its assertion, and otherwise it returns.
\<close>

theorem ImportedModuleDesc_never_exported_and_implementation_only:
  "(ImportedModuleDesc_ctor M options file_name = Inr D \<longrightarrow>
      module D = M \<and> importOptions D = options \<and> filename D = file_name \<and>
      \<not> (OptionSet_contains (importOptions D) (ImportFlags_raw Exported) \<and>
         OptionSet_contains (importOptions D)
           (ImportFlags_raw ImportFlags.ImplementationOnly))) \<and>
   (OptionSet_contains options (ImportFlags_raw Exported) \<and>
    OptionSet_contains options (ImportFlags_raw ImportFlags.ImplementationOnly) \<longrightarrow>
      (\<exists>e. ImportedModuleDesc_ctor M options file_name = Inl (AssertionFailure e))) \<and>
   (\<not> (OptionSet_contains options (ImportFlags_raw Exported) \<and>
       OptionSet_contains options (ImportFlags_raw ImportFlags.ImplementationOnly)) \<longrightarrow>
      (\<exists>D'. ImportedModuleDesc_ctor M options file_name = Inr D'))"
  by (auto simp del: ImportFlags_raw.simps simp: ImportedModuleDesc_ctor_def Let_def
        split: if_splits)

theorem ImportedModuleDesc_never_exported_and_implementation_only_witness:
  "ImportedModuleDesc_ctor ([], 5) 0x3 ''a.swift'' =
     Inr \<lparr>module = ([], 5), importOptions = 0x3, filename = ''a.swift''\<rparr> \<and>
   \<not> OptionSet_contains (0x3 :: 32 word) (ImportFlags_raw ImportFlags.ImplementationOnly) \<and>
   OptionSet_contains (0x9 :: 32 word) (ImportFlags_raw Exported) \<and>
   OptionSet_contains (0x9 :: 32 word) (ImportFlags_raw ImportFlags.ImplementationOnly) \<and>
   (\<exists>e. ImportedModuleDesc_ctor ([], 5) 0x9 ''a.swift'' = Inl (AssertionFailure e))"
  using ImportedModuleDesc_never_exported_and_implementation_only
          [of "([], 5)" "0x3" "''a.swift''"
              "\<lparr>module = ([], 5), importOptions = 0x3, filename = ''a.swift''\<rparr>"]
        ImportedModuleDesc_never_exported_and_implementation_only
          [of "([], 5)" "0x9" "''a.swift''"
              "\<lparr>module = ([], 5), importOptions = 0x9, filename = ''a.swift''\<rparr>"]
  by (simp add: ImportedModuleDesc_ctor_def OptionSet_contains_def)

text \<open>
  C7. \<open>hasEntryPoint\<close> is false for every file unit that is not a \<open>SourceFile\<close> (the
  body of \<open>FileUnit\<close>), and for a \<open>SourceFile\<close> it is true exactly when the file is in
  script mode, that is of kind \<open>Main\<close> or \<open>REPL\<close>, or its \<open>MainClass\<close> is not null.
\<close>

theorem hasEntryPoint_only_script_or_main_class:
  "\<not> FileUnit_hasEntryPoint_default \<and>
   ((\<forall>SF. F \<noteq> FileUnit_SourceFile SF) \<longrightarrow> hasEntryPoint F = False) \<and>
   (isScriptMode SF \<longleftrightarrow> Kind SF = Main \<or> Kind SF = REPL) \<and>
   (hasEntryPoint (FileUnit_SourceFile SF) \<longleftrightarrow>
      (Kind SF = Main \<or> Kind SF = REPL) \<or> MainClass SF \<noteq> None)"
proof -
  have script: "isScriptMode SF \<longleftrightarrow> Kind SF = Main \<or> Kind SF = REPL"
    by (cases "Kind SF") simp_all
  have other: "hasEntryPoint F = False" if "\<forall>SF. F \<noteq> FileUnit_SourceFile SF"
    using that by (cases F) (simp_all add: FileUnit_hasEntryPoint_default_def)
  have source: "hasEntryPoint (FileUnit_SourceFile SF) \<longleftrightarrow>
      (Kind SF = Main \<or> Kind SF = REPL) \<or> MainClass SF \<noteq> None"
    using script
    by (simp add: SourceFile_hasEntryPoint_def SourceFile_hasMainClass_def
          SourceFile_getMainClass_def del: isScriptMode.simps)
  from script other source show ?thesis
    by (simp add: FileUnit_hasEntryPoint_default_def)
qed

theorem hasEntryPoint_only_script_or_main_class_witness:
  "(\<forall>SF. FileUnit_BuiltinUnit \<noteq> FileUnit_SourceFile SF) \<and>
   hasEntryPoint FileUnit_BuiltinUnit = False \<and>
   hasEntryPoint (FileUnit_LoadedFile
      \<lparr>LoadedFile_Kind = SerializedAST, FilenameForPrivateDecls = Map.empty\<rparr>) = False \<and>
   hasEntryPoint (FileUnit_SourceFile \<lparr>Imports = [], MainClass = None, Kind = Main\<rparr>) \<and>
   hasEntryPoint (FileUnit_SourceFile \<lparr>Imports = [], MainClass = None, Kind = REPL\<rparr>) \<and>
   hasEntryPoint (FileUnit_SourceFile \<lparr>Imports = [], MainClass = Some 3, Kind = Library\<rparr>) \<and>
   \<not> hasEntryPoint (FileUnit_SourceFile \<lparr>Imports = [], MainClass = None, Kind = Library\<rparr>)"
  using hasEntryPoint_only_script_or_main_class
          [of FileUnit_BuiltinUnit "\<lparr>Imports = [], MainClass = None, Kind = Main\<rparr>"]
        hasEntryPoint_only_script_or_main_class
          [of "FileUnit_LoadedFile
                 \<lparr>LoadedFile_Kind = SerializedAST, FilenameForPrivateDecls = Map.empty\<rparr>"
              "\<lparr>Imports = [], MainClass = None, Kind = REPL\<rparr>"]
        hasEntryPoint_only_script_or_main_class
          [of FileUnit_BuiltinUnit "\<lparr>Imports = [], MainClass = Some 3, Kind = Library\<rparr>"]
        hasEntryPoint_only_script_or_main_class
          [of FileUnit_BuiltinUnit "\<lparr>Imports = [], MainClass = None, Kind = Library\<rparr>"]
  by simp

text \<open>
  C8. For every file unit \<open>getImportedModulesForLookup\<close> is \<open>getImportedModules\<close> with
  the filter \<open>Public\<close>, whatever the override of \<open>SourceFile\<close> does; a call of
  \<open>ModuleDecl::getImportedModules\<close> without a filter is the call with the filter
  \<open>Public\<close>; and that filter contains \<open>Public\<close> and no other kind.
\<close>

theorem getImportedModulesForLookup_is_Public_filter:
  "getImportedModulesForLookup SourceFile_getImportedModules F imports =
     getImportedModules SourceFile_getImportedModules F imports (ImportFilterKind_raw Public) \<and>
   ModuleDecl_getImportedModules body M imports None =
     ModuleDecl_getImportedModules body M imports (Some (ImportFilterKind_raw Public)) \<and>
   (OptionSet_contains (ImportFilterKind_raw Public) (ImportFilterKind_raw k) \<longleftrightarrow> k = Public)"
  by (cases k)
     (simp_all add: getImportedModulesForLookup_def ModuleDecl_getImportedModules_def
        OptionSet_contains_def)

text \<open>
  C9. On a \<open>BuiltinUnit\<close>, \<open>getDiscriminatorForPrivateValue\<close> reaches
  \<^verbatim>\<open>llvm_unreachable\<close> for every declaration and returns no identifier.
\<close>

theorem BuiltinUnit_getDiscriminatorForPrivateValue_traps:
  "getDiscriminatorForPrivateValue ofSourceFile ofLoadedFile FileUnit_BuiltinUnit D =
     Inl (Unreachable ''no private values in the Builtin module'') \<and>
   (\<forall>I. getDiscriminatorForPrivateValue ofSourceFile ofLoadedFile FileUnit_BuiltinUnit D
         \<noteq> Inr I)"
  by (simp add: BuiltinUnit_getDiscriminatorForPrivateValue_def)

lemma addFilenameForPrivateDecl_other:
  "addFilenameForPrivateDecl decl id' LF = Inr LF' \<Longrightarrow> d \<noteq> decl \<Longrightarrow>
   FilenameForPrivateDecls LF' d = FilenameForPrivateDecls LF d"
  by (auto simp: addFilenameForPrivateDecl_def split: if_splits)

lemma addFilenamesForPrivateDecls_other:
  "addFilenamesForPrivateDecls adds LF = Inr LF' \<Longrightarrow> d \<notin> fst ` set adds \<Longrightarrow>
   FilenameForPrivateDecls LF' d = FilenameForPrivateDecls LF d"
proof (induction adds arbitrary: LF)
  case Nil
  then show ?case by simp
next
  case (Cons a adds)
  obtain decl id' where a: "a = (decl, id')" by (cases a)
  from Cons.prems(1) a obtain LF1 where
    one: "addFilenameForPrivateDecl decl id' LF = Inr LF1" and
    rest: "addFilenamesForPrivateDecls adds LF1 = Inr LF'"
    by (auto split: sum.splits)
  from Cons.prems(2) a have "d \<noteq> decl" and "d \<notin> fst ` set adds" by auto
  with Cons.IH [OF rest] addFilenameForPrivateDecl_other [OF one]
  show ?case by simp
qed

text \<open>
  C10. When \<open>decl\<close> is unmapped or mapped to \<open>id\<close>, \<open>addFilenameForPrivateDecl\<close>
  returns, \<open>getFilenameForPrivateDecl\<close> then gives \<open>id\<close>, and adding the same pair again
  changes nothing. For a declaration that no call has added since the construction of the
  file, \<open>getFilenameForPrivateDecl\<close> gives the empty string.
\<close>

theorem FilenameForPrivateDecl_round_trip:
  "(FilenameForPrivateDecls LF decl = None \<or> FilenameForPrivateDecls LF decl = Some id' \<longrightarrow>
      (\<exists>LF'. addFilenameForPrivateDecl decl id' LF = Inr LF' \<and>
             getFilenameForPrivateDecl decl LF' = id' \<and>
             addFilenameForPrivateDecl decl id' LF' = Inr LF')) \<and>
   (LoadedFile_ctor kind = Inr LF0 \<and> addFilenamesForPrivateDecls adds LF0 = Inr LF1 \<and>
    d \<notin> fst ` set adds \<longrightarrow> getFilenameForPrivateDecl d LF1 = '''')"
proof (intro conjI impI)
  assume "FilenameForPrivateDecls LF decl = None \<or> FilenameForPrivateDecls LF decl = Some id'"
  then show "\<exists>LF'. addFilenameForPrivateDecl decl id' LF = Inr LF' \<and>
             getFilenameForPrivateDecl decl LF' = id' \<and>
             addFilenameForPrivateDecl decl id' LF' = Inr LF'"
    by (auto simp: addFilenameForPrivateDecl_def getFilenameForPrivateDecl_def)
next
  assume a: "LoadedFile_ctor kind = Inr LF0 \<and> addFilenamesForPrivateDecls adds LF0 = Inr LF1 \<and>
    d \<notin> fst ` set adds"
  then have "FilenameForPrivateDecls LF0 d = None"
    by (auto simp: LoadedFile_ctor_def split: if_splits)
  with a addFilenamesForPrivateDecls_other [of adds LF0 LF1 d]
  show "getFilenameForPrivateDecl d LF1 = ''''"
    by (simp add: getFilenameForPrivateDecl_def)
qed

theorem FilenameForPrivateDecl_round_trip_witness:
  "FilenameForPrivateDecls
     \<lparr>LoadedFile_Kind = ClangModule, FilenameForPrivateDecls = Map.empty\<rparr> 1 = None \<and>
   addFilenameForPrivateDecl 1 ''a.swift''
     \<lparr>LoadedFile_Kind = ClangModule, FilenameForPrivateDecls = Map.empty\<rparr> =
     Inr \<lparr>LoadedFile_Kind = ClangModule, FilenameForPrivateDecls = [1 \<mapsto> ''a.swift'']\<rparr> \<and>
   getFilenameForPrivateDecl 1
     \<lparr>LoadedFile_Kind = ClangModule, FilenameForPrivateDecls = [1 \<mapsto> ''a.swift'']\<rparr> =
     ''a.swift'' \<and>
   LoadedFile_ctor ClangModule =
     Inr \<lparr>LoadedFile_Kind = ClangModule, FilenameForPrivateDecls = Map.empty\<rparr> \<and>
   addFilenamesForPrivateDecls [(1, ''a.swift''), (1, ''a.swift'')]
     \<lparr>LoadedFile_Kind = ClangModule, FilenameForPrivateDecls = Map.empty\<rparr> =
     Inr \<lparr>LoadedFile_Kind = ClangModule, FilenameForPrivateDecls = [1 \<mapsto> ''a.swift'']\<rparr> \<and>
   (2::nat) \<notin> fst ` set [(1, ''a.swift''), (1, ''a.swift'')] \<and>
   getFilenameForPrivateDecl 2
     \<lparr>LoadedFile_Kind = ClangModule, FilenameForPrivateDecls = [1 \<mapsto> ''a.swift'']\<rparr> = ''''"
  using FilenameForPrivateDecl_round_trip
          [of "\<lparr>LoadedFile_Kind = ClangModule, FilenameForPrivateDecls = Map.empty\<rparr>"
              1 "''a.swift''" ClangModule
              "\<lparr>LoadedFile_Kind = ClangModule, FilenameForPrivateDecls = Map.empty\<rparr>"
              "[(1, ''a.swift''), (1, ''a.swift'')]"
              "\<lparr>LoadedFile_Kind = ClangModule, FilenameForPrivateDecls = [1 \<mapsto> ''a.swift'']\<rparr>"
              2]
  by (simp add: addFilenameForPrivateDecl_def getFilenameForPrivateDecl_def
        LoadedFile_ctor_def LoadedFile_classof_def)

subsection \<open>Visiting every import once\<close>

lemma list_ex_isEqual_iff_key:
  "list_ex (isEqual I) visited \<longleftrightarrow> importKey I \<in> importKey ` set visited"
  by (auto simp: list_ex_iff isEqual_iff_key importKey_def)

text \<open>The three ways one round of the loop can go.\<close>

lemma visitModules_seen:
  "list_ex (isEqual current) visited \<Longrightarrow>
   visitModules G fn (current # stack) visited s = visitModules G fn stack visited s"
  by simp

lemma visitModules_stop:
  "\<not> list_ex (isEqual current) visited \<Longrightarrow> fn current s = (False, s') \<Longrightarrow>
   visitModules G fn (current # stack) visited s = (False, [(current, False)], s')"
  by simp

lemma visitModules_continue:
  "\<not> list_ex (isEqual current) visited \<Longrightarrow> fn current s = (True, s') \<Longrightarrow>
   visitModules G fn (current # stack) visited s =
     (fst (visitModules G fn (importsPassing G (snd current) lookupRelevantFilter @ stack)
             (current # visited) s'),
      (current, True) #
        fst (snd (visitModules G fn
                    (importsPassing G (snd current) lookupRelevantFilter @ stack)
                    (current # visited) s')),
      snd (snd (visitModules G fn
                  (importsPassing G (snd current) lookupRelevantFilter @ stack)
                  (current # visited) s')))"
  by (simp split: prod.splits)

lemma visitModules_completed_iff:
  "fst (visitModules G fn stack visited s) =
     (\<forall>c \<in> set (fst (snd (visitModules G fn stack visited s))). snd c)"
proof (induction G fn stack visited s rule: visitModules.induct)
  case (1 G fn visited s)
  show ?case by simp
next
  case (2 G fn current stack visited s)
  show ?case
  proof (cases "list_ex (isEqual current) visited")
    case True
    with "2.IH"(1) show ?thesis by (simp only: visitModules_seen)
  next
    case new: False
    obtain continue s' where fn: "fn current s = (continue, s')" by (cases "fn current s")
    show ?thesis
    proof (cases continue)
      case True
      from "2.IH"(2) [OF new fn [symmetric]] True fn
      show ?thesis
        by (simp add: visitModules_continue [OF new] del: visitModules.simps)
    next
      case False
      with new fn show ?thesis by (simp add: visitModules_stop del: visitModules.simps)
    qed
  qed
qed

lemma visitModules_calls_distinct:
  "distinct (map importKey (map fst (fst (snd (visitModules G fn stack visited s))))) \<and>
   importKey ` fst ` set (fst (snd (visitModules G fn stack visited s)))
     \<inter> importKey ` set visited = {}"
proof (induction G fn stack visited s rule: visitModules.induct)
  case (1 G fn visited s)
  show ?case by simp
next
  case (2 G fn current stack visited s)
  show ?case
  proof (cases "list_ex (isEqual current) visited")
    case True
    with "2.IH"(1) show ?thesis by (simp only: visitModules_seen)
  next
    case new: False
    obtain continue s' where fn: "fn current s = (continue, s')" by (cases "fn current s")
    show ?thesis
    proof (cases continue)
      case True
      let ?rest = "fst (snd (visitModules G fn
          (importsPassing G (snd current) lookupRelevantFilter @ stack) (current # visited) s'))"
      from "2.IH"(2) [OF new fn [symmetric]] True
      have d: "distinct (map importKey (map fst ?rest))"
        and i: "importKey ` fst ` set ?rest \<inter> importKey ` set (current # visited) = {}"
        by blast+
      from new have k: "importKey current \<notin> importKey ` set visited"
        by (simp add: list_ex_isEqual_iff_key)
      have calls: "fst (snd (visitModules G fn (current # stack) visited s)) =
          (current, True) # ?rest"
        using fn True by (simp add: visitModules_continue [OF new] del: visitModules.simps)
      from i have i1: "importKey current \<notin> importKey ` fst ` set ?rest"
        and i2: "importKey ` fst ` set ?rest \<inter> importKey ` set visited = {}"
        by auto
      have "distinct (map importKey (map fst ((current, True) # ?rest)))"
        using d i1 by (simp add: image_comp)
      moreover have "importKey ` fst ` set ((current, True) # ?rest)
          \<inter> importKey ` set visited = {}"
        using i2 k by simp
      ultimately show ?thesis unfolding calls by (rule conjI)
    next
      case False
      with new fn show ?thesis
        by (simp add: visitModules_stop list_ex_isEqual_iff_key del: visitModules.simps)
    qed
  qed
qed

lemma distinct_keys_not_isEqual:
  assumes "distinct (map importKey (map fst calls))" and "i < j" and "j < length calls"
  shows "\<not> isEqual (fst (calls ! i)) (fst (calls ! j))"
proof
  let ?keys = "map importKey (map fst calls)"
  assume "isEqual (fst (calls ! i)) (fst (calls ! j))"
  then have "?keys ! i = ?keys ! j"
    using assms(2,3) by (simp add: isEqual_iff_key importKey_def)
  moreover have "i < length ?keys" and "j < length ?keys"
    using assms(2,3) by simp_all
  ultimately have "i = j"
    using assms(1) by (simp only: nth_eq_iff_index_eq)
  with assms(2) show False by simp
qed

lemma visitModules_never_stopped:
  "(\<And>I s. fst (fn I s)) \<Longrightarrow> fst (visitModules G fn stack visited s)"
proof (induction G fn stack visited s rule: visitModules.induct)
  case (1 G fn visited s)
  show ?case by simp
next
  case (2 G fn current stack visited s)
  show ?case
  proof (cases "list_ex (isEqual current) visited")
    case True
    with "2.IH"(1) "2.prems" show ?thesis by (simp only: visitModules_seen)
  next
    case False
    obtain continue s' where fn: "fn current s = (continue, s')" by (cases "fn current s")
    with "2.prems" [of current s] have continue: continue by simp
    from "2.IH"(2) [OF False fn [symmetric]] continue "2.prems" fn
    show ?thesis
      by (simp add: visitModules_continue [OF False] del: visitModules.simps)
  qed
qed

text \<open>
  C1. On every module graph, cyclic or not, \<open>forAllVisibleModules\<close> returns (it is a
  total function, by the termination proof of \<open>visitModules\<close>). No two calls of the
  callback are on import records that are equal under \<open>isEqual\<close>, the path-equality rule
  that ignores source locations; and the result is true exactly when no call of the callback
  returned false. With a \<^verbatim>\<open>void\<close> callback the result is always true.
\<close>

theorem forAllVisibleModules_each_import_once:
  "(case forAllVisibleModules G M topLevelAccessPath fn s of
      (completed, calls, s') \<Rightarrow>
        (\<forall>i j. i < j \<and> j < length calls \<longrightarrow>
           \<not> isEqual (fst (calls ! i)) (fst (calls ! j))) \<and>
        completed = (\<forall>c \<in> set calls. snd c)) \<and>
   fst (forAllVisibleModules_void G M topLevelAccessPath fn' s) = True"
proof -
  obtain completed calls s' where
    run: "forAllVisibleModules G M topLevelAccessPath fn s = (completed, calls, s')"
    by (cases "forAllVisibleModules G M topLevelAccessPath fn s")
  let ?stack = "(topLevelAccessPath, M) # importsPassing G M directFilter"
  from run have v: "visitModules G fn ?stack [] s = (completed, calls, s')"
    by (simp only: forAllVisibleModules_def)
  from visitModules_calls_distinct [of G fn ?stack "[]" s]
  have "distinct (map importKey (map fst calls))"
    unfolding v by simp
  then have once: "\<forall>i j. i < j \<and> j < length calls \<longrightarrow>
      \<not> isEqual (fst (calls ! i)) (fst (calls ! j))"
    by (intro allI impI, elim conjE) (rule distinct_keys_not_isEqual)
  from visitModules_completed_iff [of G fn ?stack "[]" s]
  have completed: "completed = (\<forall>c \<in> set calls. snd c)"
    unfolding v by simp
  have void: "fst (forAllVisibleModules_void G M topLevelAccessPath fn' s) = True"
    unfolding forAllVisibleModules_void_def forAllVisibleModules_def
    by (simp add: visitModules_never_stopped del: visitModules.simps)
  from once completed void show ?thesis
    unfolding run by simp
qed


theorem forAllVisibleModules_each_import_once_witness:
  "forAllVisibleModules
     [(1, [\<lparr>module = ([(''f'', 10)], 2), importOptions = 0x1, filename = ''a.swift''\<rparr>,
           \<lparr>module = ([(''f'', 20)], 2), importOptions = 0x1, filename = ''b.swift''\<rparr>]),
      (2, [\<lparr>module = ([], 1), importOptions = 0x1, filename = ''c.swift''\<rparr>])]
     1 [] (\<lambda>I s. (True, snd I # s)) [] =
     (True, [(([], 1), True), (([(''f'', 10)], 2), True)], [2, 1]) \<and>
   (0 :: nat) < 1 \<and> 1 < length [(([], 1 :: nat), True), (([(''f'', 10 :: nat)], 2), True)] \<and>
   \<not> isEqual ([], 1) ([(''f'', 10)], 2) \<and>
   list_all snd [(([], 1 :: nat), True), (([(''f'', 10 :: nat)], 2 :: nat), True)] \<and>
   forAllVisibleModules
     [(1, [\<lparr>module = ([(''f'', 10)], 2), importOptions = 0x1, filename = ''a.swift''\<rparr>,
           \<lparr>module = ([(''f'', 20)], 2), importOptions = 0x1, filename = ''b.swift''\<rparr>]),
      (2, [\<lparr>module = ([], 1), importOptions = 0x1, filename = ''c.swift''\<rparr>])]
     1 [] (\<lambda>I s. (snd I \<noteq> 2, snd I # s)) [] =
     (False, [(([], 1), True), (([(''f'', 10)], 2), False)], [2, 1])"
proof -
  let ?G = "[(1, [\<lparr>module = ([(''f'', 10)], 2), importOptions = 0x1, filename = ''a.swift''\<rparr>,
           \<lparr>module = ([(''f'', 20)], 2), importOptions = 0x1, filename = ''b.swift''\<rparr>]),
      (2, [\<lparr>module = ([], 1), importOptions = 0x1, filename = ''c.swift''\<rparr>])]"
  note defs = forAllVisibleModules_def importsPassing_def importsOf_def importKind_def
    OptionSet_contains_def OptionSet_or_def lookupRelevantFilter_def directFilter_def
    isEqual_def
  have run: "forAllVisibleModules ?G 1 [] (\<lambda>I s. (True, snd I # s)) [] =
      (True, [(([], 1), True), (([(''f'', 10)], 2), True)], [2, 1])"
    by (simp add: defs)
  have stop: "forAllVisibleModules ?G 1 [] (\<lambda>I s. (snd I \<noteq> 2, snd I # s)) [] =
      (False, [(([], 1), True), (([(''f'', 10)], 2), False)], [2, 1])"
    by (simp add: defs)
  let ?calls = "[(([], 1 :: nat), True), (([(''f'', 10 :: nat)], 2 :: nat), True)]"
  from forAllVisibleModules_each_import_once
         [of ?G 1 "[]" "\<lambda>I s. (True, snd I # s)" "[]" "\<lambda>I s. s"]
  have "(\<forall>i j. i < j \<and> j < length ?calls \<longrightarrow>
           \<not> isEqual (fst (?calls ! i)) (fst (?calls ! j))) \<and>
        True = (\<forall>c \<in> set ?calls. snd c)"
    unfolding run prod.case by (rule conjunct1)
  then have "(0 < (1 :: nat) \<and> 1 < length ?calls \<longrightarrow>
           \<not> isEqual (fst (?calls ! 0)) (fst (?calls ! 1))) \<and>
        (\<forall>c \<in> set ?calls. snd c)"
    by blast
  then have "\<not> isEqual ([], 1) ([(''f'', 10)], 2) \<and> list_all snd ?calls"
    by simp
  with run stop show ?thesis by simp
qed

end
